theory Spec2Isabelle
  imports Complex_Main "HOL-Library.Log_Nat"
begin

section \<open>Python values\<close>

text \<open>
  The engine computes on Python numbers. In the ROI calculator, the cost model, the
  scorer and the combiner, floats are idealised as the reals they approximate, so
  rounding, overflow and NaN are outside the model there; integers stay integers. What
  that part keeps of the float type is the one special value the code creates on
  purpose, \<^verbatim>\<open>float('inf')\<close>. The DR revenue model, whose property is an exact
  equality of floats, rounds every operation to a double (see the next section).

  A Python \<^verbatim>\<open>str\<close> is modelled by its UTF-8 bytes: two strings are equal
  exactly when their encodings are, and the engine only compares strings and uses them
  as dictionary keys.
\<close>

datatype py_error = ZeroDivisionError | KeyError

datatype py_float = Finite real | Infinity

text \<open>True division \<^verbatim>\<open>a / b\<close>: raises on a zero divisor.\<close>

definition py_div :: "real \<Rightarrow> real \<Rightarrow> py_error + real" where
  "py_div a b = (if b = 0 then Inl ZeroDivisionError else Inr (a / b))"

text \<open>Sequencing: an exception raised by the first computation skips the rest.\<close>

definition and_then :: "py_error + 'a \<Rightarrow> ('a \<Rightarrow> py_error + 'b) \<Rightarrow> py_error + 'b" where
  "and_then r f = (case r of Inl e \<Rightarrow> Inl e | Inr v \<Rightarrow> f v)"

text \<open>\<^verbatim>\<open>d.get(k, default)\<close> on a dictionary given by its items.\<close>

definition dict_get :: "('k \<times> 'v) list \<Rightarrow> 'k \<Rightarrow> 'v \<Rightarrow> 'v" where
  "dict_get d k dflt = (case map_of d k of None \<Rightarrow> dflt | Some v \<Rightarrow> v)"




definition dict_values :: "('k \<times> 'v) list \<Rightarrow> 'v list" where
  "dict_values d = map snd d"


section \<open>Double-precision arithmetic\<close>

text \<open>
  A finite double is the real it denotes. \<open>float_round\<close> maps a real to the nearest
  double, a tie going to the even significand (the default rounding of IEEE 754, which
  Python's float operations and float literals use): the unit in the last place is
  \<open>2\<^sup>e\<^sup>-\<^sup>5\<^sup>2\<close> for \<open>e\<close> the binary exponent of the argument, and never
  below the subnormal step \<open>2\<^sup>-\<^sup>1\<^sup>0\<^sup>7\<^sup>4\<close>. The exponent is not bounded from above:
  overflow to \<^verbatim>\<open>inf\<close> is outside the model.
\<close>

definition pow2 :: "int \<Rightarrow> real" where
  "pow2 k = (if 0 \<le> k then 2 ^ nat k else 1 / 2 ^ nat (- k))"

text \<open>The binary exponent \<open>\<lfloor>log\<^sub>2 \<bar>x\<bar>\<rfloor>\<close> of a real other than 0.\<close>

definition float_exponent :: "real \<Rightarrow> int" where
  "float_exponent x =
     (if 1 \<le> \<bar>x\<bar> then bitlen \<lfloor>\<bar>x\<bar>\<rfloor> - 1 else - bitlen (\<lceil>1 / \<bar>x\<bar>\<rceil> - 1))"

definition round_half_even :: "real \<Rightarrow> int" where
  "round_half_even x =
     (let lo = \<lfloor>x\<rfloor>; rest = x - of_int lo
      in if rest < 1 / 2 then lo
         else if rest > 1 / 2 then lo + 1
         else if even lo then lo else lo + 1)"

definition float_round :: "real \<Rightarrow> real" where
  "float_round x =
     (if x = 0 then 0
      else let ulp = pow2 (max (float_exponent x) (- 1022) - 52)
           in of_int (round_half_even (x / ulp)) * ulp)"

text \<open>The float operations \<^verbatim>\<open>x + y\<close>, \<^verbatim>\<open>x - y\<close> and \<^verbatim>\<open>x * y\<close>.\<close>

definition fadd :: "real \<Rightarrow> real \<Rightarrow> real" where
  "fadd x y = float_round (x + y)"

definition fsub :: "real \<Rightarrow> real \<Rightarrow> real" where
  "fsub x y = float_round (x - y)"

definition fmul :: "real \<Rightarrow> real \<Rightarrow> real" where
  "fmul x y = float_round (x * y)"

text \<open>
  A sum of floats accumulated from 0 in list order, each addition rounded: what
  \<^verbatim>\<open>s = 0\<close>, \<^verbatim>\<open>for x in xs: s += x\<close> computes.
\<close>

definition sum_in_order :: "real list \<Rightarrow> real" where
  "sum_in_order xs = foldl fadd 0 xs"


section \<open>ROI calculator (v2g_business_analyzer.py)\<close>

record roi_metrics =
  roi :: real
  payback_period :: py_float
  npv :: real
  irr :: real
  annual_net_income :: real

text \<open>
  The loop \<^verbatim>\<open>for year in range(1, operation_years + 1): npv += annual_net_income / (1 + discount_rate) ** year\<close>,
  over the list of years it visits.
\<close>

fun npv_loop :: "real \<Rightarrow> real \<Rightarrow> int list \<Rightarrow> real \<Rightarrow> py_error + real" where
  "npv_loop net discount_rate [] acc = Inr acc"
| "npv_loop net discount_rate (year # years) acc =
     and_then (py_div net ((1 + discount_rate) ^ nat year))
       (\<lambda>q. npv_loop net discount_rate years (acc + q))"

definition calculate_roi_metrics :: "real \<Rightarrow> real \<Rightarrow> int \<Rightarrow> py_error + roi_metrics" where
  "calculate_roi_metrics annual_revenue investment_cost operation_years =
     (let annual_opex = investment_cost * 0.05;
          annual_net_income = annual_revenue - annual_opex
      in
      and_then (py_div (annual_net_income * of_int operation_years - investment_cost)
                  investment_cost)
        (\<lambda>q. let roi = q * 100 in
      and_then (if annual_net_income > 0
                then and_then (py_div investment_cost annual_net_income) (\<lambda>p. Inr (Finite p))
                else Inr Infinity)
        (\<lambda>payback_period. let discount_rate = 0.05 in
      and_then (npv_loop annual_net_income discount_rate [1..operation_years]
                  (- investment_cost))
        (\<lambda>npv.
      and_then (if investment_cost > 0
                then and_then (py_div annual_net_income investment_cost) (\<lambda>r. Inr (r * 100))
                else Inr 0)
        (\<lambda>irr.
      Inr \<lparr>roi = roi, payback_period = payback_period, npv = npv, irr = irr,
           annual_net_income = annual_net_income\<rparr>)))))"


section \<open>Revenue and cost model (v2g_business_analyzer.py)\<close>

text \<open>Region names, as the UTF-8 bytes of the source's Korean literals.\<close>

definition sudogwon :: string where
  "sudogwon = [CHR 0xEC, CHR 0x88, CHR 0x98, CHR 0xEB, CHR 0x8F, CHR 0x84, CHR 0xEA, CHR 0xB6, CHR 0x8C]"

definition chungcheonggwon :: string where
  "chungcheonggwon = [CHR 0xEC, CHR 0xB6, CHR 0xA9, CHR 0xEC, CHR 0xB2, CHR 0xAD, CHR 0xEA, CHR 0xB6, CHR 0x8C]"

definition yeongnamgwon :: string where
  "yeongnamgwon = [CHR 0xEC, CHR 0x98, CHR 0x81, CHR 0xEB, CHR 0x82, CHR 0xA8, CHR 0xEA, CHR 0xB6, CHR 0x8C]"

definition honamgwon :: string where
  "honamgwon = [CHR 0xED, CHR 0x98, CHR 0xB8, CHR 0xEB, CHR 0x82, CHR 0xA8, CHR 0xEA, CHR 0xB6, CHR 0x8C]"

definition gangwongwon :: string where
  "gangwongwon = [CHR 0xEA, CHR 0xB0, CHR 0x95, CHR 0xEC, CHR 0x9B, CHR 0x90, CHR 0xEA, CHR 0xB6, CHR 0x8C]"

definition jejugwon :: string where
  "jejugwon = [CHR 0xEC, CHR 0xA0, CHR 0x9C, CHR 0xEC, CHR 0xA3, CHR 0xBC, CHR 0xEA, CHR 0xB6, CHR 0x8C]"

text \<open>
  The three entries of \<^verbatim>\<open>self.dr_rates\<close>: the monthly base fee and the monthly
  capacity fee per kW, and the reduction fee per kWh.
\<close>

definition dr_rate_basic :: real where
  "dr_rate_basic = 3000"

definition dr_rate_reduction :: real where
  "dr_rate_reduction = 150"

definition dr_rate_capacity :: real where
  "dr_rate_capacity = 2000"

text \<open>
  In the DR revenue model the numeric arguments are doubles, a float literal is the
  double nearest to its decimal, and every operation rounds. The integer constants (the
  rates, 30, 2 and 12) are converted exactly.
\<close>

definition dr_location_factor :: "(string \<times> real) list" where
  "dr_location_factor =
     [(sudogwon, float_round 1.2), (chungcheonggwon, float_round 1.0),
      (yeongnamgwon, float_round 1.1), (honamgwon, float_round 0.9),
      (gangwongwon, float_round 0.8), (jejugwon, float_round 0.7)]"

definition seasonal_factors :: "real list" where
  "seasonal_factors =
     map float_round [1.3, 1.1, 0.8, 0.7, 0.9, 1.4, 1.5, 1.4, 1.0, 0.8, 1.0, 1.2]"

text \<open>
  The loop over \<^verbatim>\<open>seasonal_factors\<close>; its state is the running
  \<^verbatim>\<open>annual_revenue\<close> and the list \<^verbatim>\<open>monthly_revenues\<close>.
\<close>

fun dr_month_loop ::
  "real \<Rightarrow> real \<Rightarrow> real \<Rightarrow> real \<Rightarrow> real list \<Rightarrow> real \<times> real list \<Rightarrow> real \<times> real list" where
  "dr_month_loop capacity_kw annual_utilization monthly_basic monthly_capacity [] st = st"
| "dr_month_loop capacity_kw annual_utilization monthly_basic monthly_capacity (factor # factors)
     (annual_revenue, monthly_revenues) =
     (let monthly_utilization = fmul annual_utilization factor;
          monthly_reduction = fmul (fmul (fmul capacity_kw 30) 2) monthly_utilization;
          monthly_reduction_revenue = fmul monthly_reduction dr_rate_reduction;
          total_monthly = fadd (fadd monthly_basic monthly_capacity) monthly_reduction_revenue
      in dr_month_loop capacity_kw annual_utilization monthly_basic monthly_capacity factors
           (fadd annual_revenue total_monthly, monthly_revenues @ [total_monthly]))"

record dr_revenue =
  annual_revenue :: real
  monthly_revenues :: "real list"
  basic_fee :: real
  capacity_fee :: real
  reduction_fee :: real

text \<open>
  The built-in \<^verbatim>\<open>sum\<close>, used for \<^verbatim>\<open>reduction_fee\<close> only, is the parameter
  \<open>builtin_sum\<close>: how it rounds a sum of floats depends on the interpreter
  (accumulation in list order before CPython 3.12, a compensated sum since).
\<close>

definition calculate_dr_revenue ::
  "(real list \<Rightarrow> real) \<Rightarrow> real \<Rightarrow> string \<Rightarrow> real \<Rightarrow> dr_revenue" where
  "calculate_dr_revenue builtin_sum capacity_kw location annual_utilization =
     (let location_factor = dict_get dr_location_factor location 1.0;
          monthly_basic = fmul capacity_kw dr_rate_basic;
          monthly_capacity = fmul (fmul capacity_kw dr_rate_capacity) location_factor;
          (annual_revenue, monthly_revenues) =
             dr_month_loop capacity_kw annual_utilization monthly_basic monthly_capacity
               seasonal_factors (0, [])
      in \<lparr>annual_revenue = annual_revenue,
          monthly_revenues = monthly_revenues,
          basic_fee = fmul monthly_basic 12,
          capacity_fee = fmul monthly_capacity 12,
          reduction_fee = fsub (builtin_sum monthly_revenues)
                            (fmul (fadd monthly_basic monthly_capacity) 12)\<rparr>)"






section \<open>Qualitative scorer (v2g_score_analyzer.py)\<close>

definition sejong :: string where
  "sejong = [CHR 0xEC, CHR 0x84, CHR 0xB8, CHR 0xEC, CHR 0xA2, CHR 0x85]"

definition gwangju :: string where
  "gwangju = [CHR 0xEA, CHR 0xB4, CHR 0x91, CHR 0xEC, CHR 0xA3, CHR 0xBC]"

definition daejeon :: string where
  "daejeon = [CHR 0xEB, CHR 0x8C, CHR 0x80, CHR 0xEC, CHR 0xA0, CHR 0x84]"

definition daegu :: string where
  "daegu = [CHR 0xEB, CHR 0x8C, CHR 0x80, CHR 0xEA, CHR 0xB5, CHR 0xAC]"

definition incheon :: string where
  "incheon = [CHR 0xEC, CHR 0x9D, CHR 0xB8, CHR 0xEC, CHR 0xB2, CHR 0x9C]"

definition busan :: string where
  "busan = [CHR 0xEB, CHR 0xB6, CHR 0x80, CHR 0xEC, CHR 0x82, CHR 0xB0]"

definition ulsan :: string where
  "ulsan = [CHR 0xEC, CHR 0x9A, CHR 0xB8, CHR 0xEC, CHR 0x82, CHR 0xB0]"

definition gyeongsanggwon :: string where
  "gyeongsanggwon = [CHR 0xEA, CHR 0xB2, CHR 0xBD, CHR 0xEC, CHR 0x83, CHR 0x81, CHR 0xEA, CHR 0xB6, CHR 0x8C]"

definition jeollagwon :: string where
  "jeollagwon = [CHR 0xEC, CHR 0xA0, CHR 0x84, CHR 0xEB, CHR 0x9D, CHR 0xBC, CHR 0xEA, CHR 0xB6, CHR 0x8C]"

definition dr_preferred_regions :: "string list" where
  "dr_preferred_regions = [sudogwon, sejong, gwangju, daejeon, daegu, gangwongwon]"

definition smp_preferred_regions :: "string list" where
  "smp_preferred_regions =
     [incheon, busan, ulsan, gyeongsanggwon, chungcheonggwon, jeollagwon, jejugwon]"

definition region_mapping :: "(string \<times> string) list" where
  "region_mapping = [(yeongnamgwon, gyeongsanggwon), (honamgwon, jeollagwon)]"

definition calculate_region_score :: "string \<Rightarrow> int \<times> int" where
  "calculate_region_score location =
     (let mapped_location = dict_get region_mapping location location in
      if location \<in> set dr_preferred_regions \<or> mapped_location \<in> set dr_preferred_regions
      then (20, 10)
      else if location \<in> set smp_preferred_regions \<or> mapped_location \<in> set smp_preferred_regions
      then (10, 20)
      else (15, 15))"

definition calculate_scale_score :: "real \<Rightarrow> int \<times> int" where
  "calculate_scale_score capacity_kw =
     (if capacity_kw \<le> 3000 then (25, 4)
      else if 3000 < capacity_kw \<and> capacity_kw \<le> 8000 then (17, 13)
      else if 8000 < capacity_kw \<and> capacity_kw \<le> 15000 then (11, 19)
      else (6, 25))"

definition risk_scores :: "(string \<times> int \<times> int) list" where
  "risk_scores = [(''stable'', (12, 0)), (''neutral'', (6, 6)), (''high_risk'', (0, 12))]"

definition calculate_risk_score :: "string \<Rightarrow> int \<times> int" where
  "calculate_risk_score risk_preference = dict_get risk_scores risk_preference (6, 6)"

definition calculate_parking_pattern_score :: "real \<Rightarrow> real \<Rightarrow> real \<times> real" where
  "calculate_parking_pattern_score regular_pattern_ratio dr_dispatch_time_ratio =
     (let (dr_weight, smp_weight) =
            (if dr_dispatch_time_ratio > 0.5 then (0.8, 0.2)
             else if 0.25 \<le> dr_dispatch_time_ratio \<and> dr_dispatch_time_ratio \<le> 0.5
             then (0.5, 0.5)
             else (0.2, 0.8));
          total_points = 16;
          dr_score = total_points * dr_weight;
          smp_score = total_points * smp_weight
      in (dr_score, smp_score))"

definition calculate_infrastructure_score :: "int \<Rightarrow> real \<Rightarrow> int \<times> int" where
  "calculate_infrastructure_score charging_spots power_capacity_mva =
     (if charging_spots > 200 \<and> power_capacity_mva > 1.0 then (1, 5)
      else if 120 < charging_spots \<and> charging_spots \<le> 200
              \<and> 0.6 < power_capacity_mva \<and> power_capacity_mva \<le> 1.0 then (2, 4)
      else if 80 < charging_spots \<and> charging_spots \<le> 120
              \<and> 0.4 < power_capacity_mva \<and> power_capacity_mva \<le> 0.6 then (3, 3)
      else if 40 < charging_spots \<and> charging_spots \<le> 80
              \<and> 0.2 < power_capacity_mva \<and> power_capacity_mva \<le> 0.4 then (4, 2)
      else if charging_spots \<le> 40 \<and> power_capacity_mva \<le> 0.2 then (5, 1)
      else (3, 3))"

definition get_ratio_score :: "real \<Rightarrow> int" where
  "get_ratio_score ratio =
     (if ratio > 0.6 then 5
      else if 0.4 < ratio \<and> ratio \<le> 0.6 then 4
      else if 0.3 < ratio \<and> ratio \<le> 0.4 then 3
      else if 0.2 < ratio \<and> ratio \<le> 0.3 then 2
      else 1)"

definition calculate_charger_ratio_score :: "int \<Rightarrow> int \<Rightarrow> int \<Rightarrow> py_error + int \<times> int" where
  "calculate_charger_ratio_score total_ports smart_ocpp_ports v2g_ports =
     and_then (if total_ports > 0 then py_div (of_int smart_ocpp_ports) (of_int total_ports)
               else Inr 0)
       (\<lambda>r_dr.
     and_then (if total_ports > 0 then py_div (of_int v2g_ports) (of_int total_ports)
               else Inr 0)
       (\<lambda>r_smp.
          let dr_score = get_ratio_score r_dr;
              smp_score = get_ratio_score r_smp
          in Inr (dr_score, smp_score)))"

definition calculate_brand_score :: "string \<Rightarrow> int \<times> int" where
  "calculate_brand_score brand_type = (if brand_type = ''b2g_large'' then (3, 0) else (1, 3))"

definition calculate_battery_degradation_score ::
  "real \<Rightarrow> real \<Rightarrow> real \<Rightarrow> real \<Rightarrow> py_error + int \<times> int" where
  "calculate_battery_degradation_score soh_under_70 soh_70_85 soh_85_95 soh_over_95 =
     (let total_ratio = soh_under_70 + soh_70_85 + soh_85_95 + soh_over_95 in
      and_then
        (if total_ratio > 0
         then and_then (py_div soh_under_70 total_ratio) (\<lambda>a.
              and_then (py_div soh_70_85 total_ratio) (\<lambda>b.
              and_then (py_div soh_85_95 total_ratio) (\<lambda>c.
              and_then (py_div soh_over_95 total_ratio) (\<lambda>d.
              Inr (a, b, c, d)))))
         else Inr (soh_under_70, soh_70_85, soh_85_95, soh_over_95))
        (\<lambda>(soh_under_70, soh_70_85, soh_85_95, soh_over_95).
           let avg_soh = soh_under_70 * 0.7 + soh_70_85 * 0.775 + soh_85_95 * 0.9
                         + soh_over_95 * 0.975;
               dr_score = 14;
               smp_score =
                 (if avg_soh > 0.95 then 14
                  else if 0.85 < avg_soh \<and> avg_soh \<le> 0.95 then 10
                  else if 0.70 < avg_soh \<and> avg_soh \<le> 0.85 then 5
                  else 0)
           in Inr (dr_score, smp_score)))"

definition calculate_budget_score :: "real \<Rightarrow> int \<times> int" where
  "calculate_budget_score budget_billion =
     (if budget_billion < 10 then (10, 0)
      else if 10 \<le> budget_billion \<and> budget_billion < 30 then (8, 2)
      else if 30 \<le> budget_billion \<and> budget_billion < 80 then (6, 4)
      else if 80 \<le> budget_billion \<and> budget_billion < 150 then (5, 5)
      else if 150 \<le> budget_billion \<and> budget_billion < 300 then (4, 6)
      else if 300 \<le> budget_billion \<and> budget_billion < 500 then (2, 8)
      else (0, 10))"

text \<open>
  \<^verbatim>\<open>round(x, ndigits)\<close> on the idealised value: to the nearest multiple of
  \<open>10\<^sup>-\<^sup>n\<close>, a tie going to the even neighbour.
\<close>

definition py_round :: "real \<Rightarrow> nat \<Rightarrow> real" where
  "py_round x ndigits =
     (let scaled = x * 10 ^ ndigits;
          lo = \<lfloor>scaled\<rfloor>;
          rest = scaled - of_int lo;
          n = (if rest < 1 / 2 then lo
               else if rest > 1 / 2 then lo + 1
               else if even lo then lo else lo + 1)
      in of_int n / 10 ^ ndigits)"

text \<open>The dataclass \<^verbatim>\<open>V2GScoreInput\<close>, field for field.\<close>

record V2GScoreInput =
  capacity_kw :: real
  location :: string
  budget_billion :: real
  risk_preference :: string
  regular_pattern_ratio :: real
  dr_dispatch_time_ratio :: real
  charging_spots :: int
  power_capacity_mva :: real
  total_ports :: int
  smart_ocpp_ports :: int
  v2g_ports :: int
  brand_type :: string
  soh_under_70_ratio :: real
  soh_70_85_ratio :: real
  soh_85_95_ratio :: real
  soh_over_95_ratio :: real

text \<open>
  The dictionaries of the result. \<open>score_pair\<close> is \<^verbatim>\<open>{'dr': .., 'smp': ..}\<close>; an
  entry of \<^verbatim>\<open>detailed_scores\<close> adds the key \<^verbatim>\<open>'max'\<close>, here \<open>max_points\<close>. The
  keys of \<^verbatim>\<open>input_summary\<close> repeat field names of the input and carry the prefix
  \<open>summary_\<close>.
\<close>

record score_pair =
  dr :: real
  smp :: real

record category_score = score_pair +
  max_points :: int

record input_summary =
  summary_capacity_kw :: real
  summary_location :: string
  summary_budget_billion :: real
  summary_risk_preference :: string

record score_result =
  total_scores :: score_pair
  detailed_scores :: "(string \<times> category_score) list"
  recommendation :: string
  score_gap :: real
  input_summary :: input_summary

definition category :: "real \<Rightarrow> real \<Rightarrow> int \<Rightarrow> category_score" where
  "category d s m = \<lparr>dr = d, smp = s, max_points = m\<rparr>"

definition calculate_comprehensive_score :: "V2GScoreInput \<Rightarrow> py_error + score_result" where
  "calculate_comprehensive_score input_data =
     (let (region_dr, region_smp) = calculate_region_score (location input_data);
          (scale_dr, scale_smp) = calculate_scale_score (capacity_kw input_data);
          (risk_dr, risk_smp) = calculate_risk_score (risk_preference input_data);
          (parking_dr, parking_smp) =
             calculate_parking_pattern_score (regular_pattern_ratio input_data)
               (dr_dispatch_time_ratio input_data);
          (infra_dr, infra_smp) =
             calculate_infrastructure_score (charging_spots input_data)
               (power_capacity_mva input_data)
      in
      and_then (calculate_charger_ratio_score (total_ports input_data)
                  (smart_ocpp_ports input_data) (v2g_ports input_data))
        (\<lambda>(charger_dr, charger_smp).
           let (brand_dr, brand_smp) = calculate_brand_score (brand_type input_data) in
      and_then (calculate_battery_degradation_score (soh_under_70_ratio input_data)
                  (soh_70_85_ratio input_data) (soh_85_95_ratio input_data)
                  (soh_over_95_ratio input_data))
        (\<lambda>(battery_dr, battery_smp).
           let (budget_dr, budget_smp) = calculate_budget_score (budget_billion input_data);
               detailed_scores =
                 [(''region'', category (of_int region_dr) (of_int region_smp) 20),
                  (''scale'', category (of_int scale_dr) (of_int scale_smp) 25),
                  (''risk'', category (of_int risk_dr) (of_int risk_smp) 12),
                  (''parking'', category parking_dr parking_smp 16),
                  (''infrastructure'', category (of_int infra_dr) (of_int infra_smp) 5),
                  (''charger'', category (of_int charger_dr) (of_int charger_smp) 5),
                  (''brand'', category (of_int brand_dr) (of_int brand_smp) 3),
                  (''battery'', category (of_int battery_dr) (of_int battery_smp) 14),
                  (''budget'', category (of_int budget_dr) (of_int budget_smp) 10)];
               total_dr = sum_list (map dr (dict_values detailed_scores));
               total_smp = sum_list (map smp (dict_values detailed_scores))
           in
           Inr \<lparr>total_scores = \<lparr>dr = py_round total_dr 1, smp = py_round total_smp 1\<rparr>,
                detailed_scores = detailed_scores,
                recommendation = (if total_dr > total_smp then ''DR'' else ''SMP''),
                score_gap = \<bar>total_dr - total_smp\<bar>,
                input_summary =
                  \<lparr>summary_capacity_kw = capacity_kw input_data,
                   summary_location = location input_data,
                   summary_budget_billion = budget_billion input_data,
                   summary_risk_preference = risk_preference input_data\<rparr>\<rparr>)))"


section \<open>Recommendation combiner (v2g_integrated_analyzer.py)\<close>

text \<open>
  Of \<^verbatim>\<open>revenue_analysis\<close> the combiner reads
  \<^verbatim>\<open>revenue_analysis[line]['roi_metrics']['roi']\<close> for the two business lines only;
  the record keeps that path. Its parameters \<^verbatim>\<open>basic_inputs\<close> and
  \<^verbatim>\<open>score_inputs\<close> are never read and are left out. The key \<^verbatim>\<open>'score_gap'\<close> of
  \<^verbatim>\<open>metrics\<close> is the field \<open>metrics_score_gap\<close>.
\<close>

record line_analysis =
  roi_metrics :: roi_metrics

record revenue_analysis =
  DR :: line_analysis
  SMP :: line_analysis

record comparison_metrics =
  dr_roi :: real
  smp_roi :: real
  dr_score :: real
  smp_score :: real
  dr_weighted :: real
  smp_weighted :: real
  roi_gap :: real
  metrics_score_gap :: real
  weighted_gap :: real

record integrated_comparison =
  revenue_recommendation :: string
  score_recommendation :: string
  final_recommendation :: string
  recommendations_match :: bool
  confidence :: string
  metrics :: comparison_metrics

text \<open>The four confidence labels: "very high", "high", "moderate" and "low" in Korean.\<close>

definition maeu_nopeum :: string where
  "maeu_nopeum = [CHR 0xEB, CHR 0xA7, CHR 0xA4, CHR 0xEC, CHR 0x9A, CHR 0xB0, CHR 0x20, CHR 0xEB, CHR 0x86, CHR 0x92, CHR 0xEC, CHR 0x9D, CHR 0x8C]"

definition nopeum :: string where
  "nopeum = [CHR 0xEB, CHR 0x86, CHR 0x92, CHR 0xEC, CHR 0x9D, CHR 0x8C]"

definition botong :: string where
  "botong = [CHR 0xEB, CHR 0xB3, CHR 0xB4, CHR 0xED, CHR 0x86, CHR 0xB5]"

definition najeum :: string where
  "najeum = [CHR 0xEB, CHR 0x82, CHR 0xAE, CHR 0xEC, CHR 0x9D, CHR 0x8C]"

definition create_integrated_comparison ::
  "revenue_analysis \<Rightarrow> score_result \<Rightarrow> integrated_comparison" where
  "create_integrated_comparison revenue_analysis score_result =
     (let dr_roi = roi (roi_metrics (DR revenue_analysis));
          smp_roi = roi (roi_metrics (SMP revenue_analysis));
          revenue_recommendation = (if dr_roi > smp_roi then ''DR'' else ''SMP'');
          score_recommendation = recommendation score_result;
          recommendations_match = (revenue_recommendation = score_recommendation);
          dr_weighted_score = (dr_roi * 0.6) + (dr (total_scores score_result) * 0.4);
          smp_weighted_score = (smp_roi * 0.6) + (smp (total_scores score_result) * 0.4);
          final_recommendation =
            (if dr_weighted_score > smp_weighted_score then ''DR'' else ''SMP'');
          roi_gap = \<bar>dr_roi - smp_roi\<bar>;
          score_gap = score_gap score_result;
          weighted_gap = \<bar>dr_weighted_score - smp_weighted_score\<bar>;
          confidence =
            (if weighted_gap > 15 then maeu_nopeum
             else if weighted_gap > 10 then nopeum
             else if weighted_gap > 5 then botong
             else najeum)
      in \<lparr>revenue_recommendation = revenue_recommendation,
          score_recommendation = score_recommendation,
          final_recommendation = final_recommendation,
          recommendations_match = recommendations_match,
          confidence = confidence,
          metrics =
            \<lparr>dr_roi = dr_roi, smp_roi = smp_roi,
             dr_score = dr (total_scores score_result),
             smp_score = smp (total_scores score_result),
             dr_weighted = dr_weighted_score, smp_weighted = smp_weighted_score,
             roi_gap = roi_gap, metrics_score_gap = score_gap,
             weighted_gap = weighted_gap\<rparr>\<rparr>)"


section \<open>Quantities the statements refer to\<close>


text \<open>
  The locals \<^verbatim>\<open>total_dr\<close> and \<^verbatim>\<open>total_smp\<close> of
  \<^verbatim>\<open>calculate_comprehensive_score\<close>, recomputed from the detailed scores of its
  result (the result itself only carries their roundings).
\<close>

definition total_dr :: "score_result \<Rightarrow> real" where
  "total_dr r = sum_list (map dr (dict_values (detailed_scores r)))"

definition total_smp :: "score_result \<Rightarrow> real" where
  "total_smp r = sum_list (map smp (dict_values (detailed_scores r)))"

text \<open>
  An input on which the two totals meet: an unmapped region (15, 15), 5000 kW
  (17, 13), neutral risk (6, 6), dispatch ratio 0.3 (8, 8), 100 spots at 0.5 MVA (3, 3),
  no ports (1, 1), a brand that is not \<^verbatim>\<open>b2g_large\<close> (1, 3), all batteries above
  95 percent (14, 14) and a budget of 200 (4, 6).
\<close>

definition tie_input :: V2GScoreInput where
  "tie_input =
     \<lparr>capacity_kw = 5000, location = ''unmapped'', budget_billion = 200,
      risk_preference = ''neutral'', regular_pattern_ratio = 0.5,
      dr_dispatch_time_ratio = 0.3, charging_spots = 100, power_capacity_mva = 0.5,
      total_ports = 0, smart_ocpp_ports = 0, v2g_ports = 0, brand_type = ''others'',
      soh_under_70_ratio = 0, soh_70_85_ratio = 0, soh_85_95_ratio = 0,
      soh_over_95_ratio = 1\<rparr>"

text \<open>The same input with the stable risk preference (12, 0): the totals are 75 and 63.\<close>

definition dr_input :: V2GScoreInput where
  "dr_input = tie_input\<lparr>risk_preference := ''stable''\<rparr>"


section \<open>Properties of the ROI calculator\<close>

lemma npv_loop_returns: "\<exists>v. npv_loop net (0.05::real) years acc = Inr v"
proof (induction years arbitrary: acc)
  case Nil
  show ?case by simp
next
  case (Cons year years)
  have nz: "((1::real) + 0.05) ^ nat year \<noteq> 0" by simp
  from Cons [of "acc + net / ((1 + 0.05) ^ nat year)"] nz show ?case
    by (simp add: and_then_def py_div_def)
qed

text \<open>
  C1. With \<open>investment_cost = 0\<close> the first division of the function, the one of the
  ROI line, has a zero divisor: the call raises \<^verbatim>\<open>ZeroDivisionError\<close> for every
  revenue and every horizon, before the guarded payback and IRR lines are reached. No
  sentinel record is returned.
\<close>

theorem roi_zero_investment_raises:
  "calculate_roi_metrics revenue 0 years = Inl ZeroDivisionError"
  by (simp add: calculate_roi_metrics_def and_then_def py_div_def)

text \<open>
  C4. For a positive investment whose annual net income (revenue minus 5 percent of
  the investment) is not positive, the call returns a record, so no division raised,
  and its payback period is the infinite sentinel.
\<close>

theorem roi_nonpositive_income_unbounded_payback:
  assumes "0 < investment"
    and "revenue - investment * 0.05 \<le> 0"
  shows "\<exists>m. calculate_roi_metrics revenue investment years = Inr m
           \<and> payback_period m = Infinity
           \<and> annual_net_income m = revenue - investment * 0.05"
proof -
  let ?net = "revenue - investment * 0.05"
  obtain v where v: "npv_loop ?net 0.05 [1..years] (- investment) = Inr v"
    using npv_loop_returns by blast
  from assms have inv: "investment \<noteq> 0" and net: "\<not> 0 < ?net" by auto
  show ?thesis
    using inv net assms(1) v
    by (simp add: calculate_roi_metrics_def and_then_def py_div_def Let_def)
qed

theorem roi_nonpositive_income_unbounded_payback_witness:
  "(0::real) < 1000 \<and> (10::real) - 1000 * 0.05 \<le> 0
   \<and> (\<exists>m. calculate_roi_metrics 10 1000 10 = Inr m \<and> payback_period m = Infinity
          \<and> annual_net_income m = 10 - 1000 * 0.05)"
proof -
  have a: "(0::real) < 1000" by simp
  have b: "(10::real) - 1000 * 0.05 \<le> 0" by simp
  from roi_nonpositive_income_unbounded_payback [OF a b, of 10] a b show ?thesis
    by blast
qed


section \<open>Properties of the revenue and cost model\<close>

lemmas float_eval =
  fadd_def fmul_def float_round_def float_exponent_def pow2_def round_half_even_def
  compute_bitlen Let_def

text \<open>
  Two familiar values as a check of the rounding: the double of the literal 0.1, and
  0.1 + 0.2, which is one unit in the last place above the double of 0.3.
\<close>

lemma float_round_examples:
  "float_round 0.1 = 3602879701896397 / 36028797018963968"
  "fadd (float_round 0.1) (float_round 0.2) = 1351079888211149 / 4503599627370496"
  "float_round 0.3 = 5404319552844595 / 18014398509481984"
  by (simp_all add: float_eval)

lemma dr_month_loop_eq:
  "dr_month_loop cap u mb mc fs (a, ms) =
     (foldl fadd a
        (map (\<lambda>f. fadd (fadd mb mc)
                     (fmul (fmul (fmul (fmul cap 30) 2) (fmul u f)) dr_rate_reduction)) fs),
      ms @ map (\<lambda>f. fadd (fadd mb mc)
                      (fmul (fmul (fmul (fmul cap 30) 2) (fmul u f)) dr_rate_reduction)) fs)"
  by (induction fs arbitrary: a ms) (simp_all add: Let_def)

lemma dr_monthly_in_code_order:
  "monthly_revenues (calculate_dr_revenue s cap loc u)
     = map (\<lambda>seasonal_factor.
              fadd (fadd (fmul cap 3000)
                         (fmul (fmul cap 2000) (dict_get dr_location_factor loc 1)))
                   (fmul (fmul (fmul (fmul cap 30) 2) (fmul u seasonal_factor)) 150))
         seasonal_factors"
  by (simp add: calculate_dr_revenue_def dr_month_loop_eq Let_def dr_rate_basic_def
      dr_rate_capacity_def dr_rate_reduction_def)

lemma dr_annual_in_month_order:
  "annual_revenue (calculate_dr_revenue s cap loc u)
     = foldl fadd 0 (monthly_revenues (calculate_dr_revenue s cap loc u))"
  by (simp add: calculate_dr_revenue_def dr_month_loop_eq Let_def)

text \<open>
  C3, as stated, fails on floats: the annual revenue is accumulated with rounded
  additions and need not be the exact sum of the monthly values, and a monthly value
  need not be the exact value of the closed form. At 100 kW in the Jeju region with
  utilization 0.95 (the double nearest to it) the annual revenue is 16480500, the twelve
  monthly values sum to 16480500 - 9/8589934592, and the first of them is
  6663641759743999/4294967296, not the 1551500 of the closed form.
\<close>

theorem dr_exact_sum_counterexample:
  "annual_revenue (calculate_dr_revenue sum_in_order 100 jejugwon (float_round 0.95))
     = 16480500
   \<and> sum_list (monthly_revenues
                 (calculate_dr_revenue sum_in_order 100 jejugwon (float_round 0.95)))
     = 16480500 - 9 / 8589934592
   \<and> annual_revenue (calculate_dr_revenue sum_in_order 100 jejugwon (float_round 0.95))
     \<noteq> sum_list (monthly_revenues
                   (calculate_dr_revenue sum_in_order 100 jejugwon (float_round 0.95)))
   \<and> hd (monthly_revenues
            (calculate_dr_revenue sum_in_order 100 jejugwon (float_round 0.95)))
     = 6663641759743999 / 4294967296"
proof -
  let ?r = "calculate_dr_revenue sum_in_order 100 jejugwon (float_round 0.95)"
  let ?months =
     "[6663641759743999 / 4294967296,
       1380500,
       1124000,
       8920647073791999 / 8589934592,
       1209500,
       7030861463551999 / 4294967296,
       7398081167359999 / 4294967296,
       7030861463551999 / 4294967296,
       1295000,
       1124000,
       1295000,
       1466000] :: real list"
  have r1: "float_round 0.95 = 4278419646001971 / 4503599627370496"
    by (simp add: float_eval)
  have r2: "float_round 0.7 = 3152519739159347 / 4503599627370496"
    by (simp add: float_eval)
  have r3: "fmul 100 3000 = 300000"
    by (simp add: float_eval)
  have r4: "fmul 100 2000 = 200000"
    by (simp add: float_eval)
  have r5: "fmul 200000 (3152519739159347 / 4503599627370496) = 140000"
    by (simp add: float_eval)
  have r6: "fadd 300000 140000 = 440000"
    by (simp add: float_eval)
  have r7: "fmul 100 30 = 3000"
    by (simp add: float_eval)
  have r8: "fmul 3000 2 = 6000"
    by (simp add: float_eval)
  have r9: "float_round 1.3 = 5854679515581645 / 4503599627370496"
    by (simp add: float_eval)
  have r10: "fmul (4278419646001971 / 4503599627370496) (5854679515581645 / 4503599627370496) = 2780972769901281 / 2251799813685248"
    by (simp add: float_eval)
  have r11: "fmul 6000 (2780972769901281 / 2251799813685248) = 8147381161820159 / 1099511627776"
    by (simp add: float_eval)
  have r12: "fmul (8147381161820159 / 1099511627776) 150 = 4773856149503999 / 4294967296"
    by (simp add: float_eval)
  have r13: "fadd 440000 (4773856149503999 / 4294967296) = 6663641759743999 / 4294967296"
    by (simp add: float_eval)
  have r14: "float_round 1.1 = 2476979795053773 / 2251799813685248"
    by (simp add: float_eval)
  have r15: "fmul (4278419646001971 / 4503599627370496) (2476979795053773 / 2251799813685248) = 588282701325271 / 562949953421312"
    by (simp add: float_eval)
  have r16: "fmul 6000 (588282701325271 / 562949953421312) = 6270"
    by (simp add: float_eval)
  have r17: "fmul 6270 150 = 940500"
    by (simp add: float_eval)
  have r18: "fadd 440000 940500 = 1380500"
    by (simp add: float_eval)
  have r19: "float_round 0.8 = 3602879701896397 / 4503599627370496"
    by (simp add: float_eval)
  have r20: "fmul (4278419646001971 / 4503599627370496) (3602879701896397 / 4503599627370496) = 3422735716801577 / 4503599627370496"
    by (simp add: float_eval)
  have r21: "fmul 6000 (3422735716801577 / 4503599627370496) = 4560"
    by (simp add: float_eval)
  have r22: "fmul 4560 150 = 684000"
    by (simp add: float_eval)
  have r23: "fadd 440000 684000 = 1124000"
    by (simp add: float_eval)
  have r24: "fmul (4278419646001971 / 4503599627370496) (3152519739159347 / 4503599627370496) = 5989787504402759 / 9007199254740992"
    by (simp add: float_eval)
  have r25: "fmul 6000 (5989787504402759 / 9007199254740992) = 8774102789652479 / 2199023255552"
    by (simp add: float_eval)
  have r26: "fmul (8774102789652479 / 2199023255552) 150 = 5141075853311999 / 8589934592"
    by (simp add: float_eval)
  have r27: "fadd 440000 (5141075853311999 / 8589934592) = 8920647073791999 / 8589934592"
    by (simp add: float_eval)
  have r28: "float_round 0.9 = 8106479329266893 / 9007199254740992"
    by (simp add: float_eval)
  have r29: "fmul (4278419646001971 / 4503599627370496) (8106479329266893 / 9007199254740992) = 1925288840700887 / 2251799813685248"
    by (simp add: float_eval)
  have r30: "fmul 6000 (1925288840700887 / 2251799813685248) = 5130"
    by (simp add: float_eval)
  have r31: "fmul 5130 150 = 769500"
    by (simp add: float_eval)
  have r32: "fadd 440000 769500 = 1209500"
    by (simp add: float_eval)
  have r33: "float_round 1.4 = 3152519739159347 / 2251799813685248"
    by (simp add: float_eval)
  have r34: "fmul (4278419646001971 / 4503599627370496) (3152519739159347 / 2251799813685248) = 5989787504402759 / 4503599627370496"
    by (simp add: float_eval)
  have r35: "fmul 6000 (5989787504402759 / 4503599627370496) = 8774102789652479 / 1099511627776"
    by (simp add: float_eval)
  have r36: "fmul (8774102789652479 / 1099511627776) 150 = 5141075853311999 / 4294967296"
    by (simp add: float_eval)
  have r37: "fadd 440000 (5141075853311999 / 4294967296) = 7030861463551999 / 4294967296"
    by (simp add: float_eval)
  have r38: "float_round 1.5 = 3 / 2"
    by (simp add: float_eval)
  have r39: "fmul (4278419646001971 / 4503599627370496) (3 / 2) = 1604407367250739 / 1125899906842624"
    by (simp add: float_eval)
  have r40: "fmul 6000 (1604407367250739 / 1125899906842624) = 4700412208742399 / 549755813888"
    by (simp add: float_eval)
  have r41: "fmul (4700412208742399 / 549755813888) 150 = 5508295557119999 / 4294967296"
    by (simp add: float_eval)
  have r42: "fadd 440000 (5508295557119999 / 4294967296) = 7398081167359999 / 4294967296"
    by (simp add: float_eval)
  have r43: "float_round 1.0 = 1"
    by (simp add: float_eval)
  have r44: "fmul (4278419646001971 / 4503599627370496) 1 = 4278419646001971 / 4503599627370496"
    by (simp add: float_eval)
  have r45: "fmul 6000 (4278419646001971 / 4503599627370496) = 5700"
    by (simp add: float_eval)
  have r46: "fmul 5700 150 = 855000"
    by (simp add: float_eval)
  have r47: "fadd 440000 855000 = 1295000"
    by (simp add: float_eval)
  have r48: "float_round 1.2 = 5404319552844595 / 4503599627370496"
    by (simp add: float_eval)
  have r49: "fmul (4278419646001971 / 4503599627370496) (5404319552844595 / 4503599627370496) = 5134103575202365 / 4503599627370496"
    by (simp add: float_eval)
  have r50: "fmul 6000 (5134103575202365 / 4503599627370496) = 7520659533987839 / 1099511627776"
    by (simp add: float_eval)
  have r51: "fmul (7520659533987839 / 1099511627776) 150 = 8813272891391999 / 8589934592"
    by (simp add: float_eval)
  have r52: "fadd 440000 (8813272891391999 / 8589934592) = 1466000"
    by (simp add: float_eval)
  have r53: "fadd 0 (6663641759743999 / 4294967296) = 6663641759743999 / 4294967296"
    by (simp add: float_eval)
  have r54: "fadd (6663641759743999 / 4294967296) 1380500 = 2932000"
    by (simp add: float_eval)
  have r55: "fadd 2932000 1124000 = 4056000"
    by (simp add: float_eval)
  have r56: "fadd 4056000 (8920647073791999 / 8589934592) = 5094500"
    by (simp add: float_eval)
  have r57: "fadd 5094500 1209500 = 6304000"
    by (simp add: float_eval)
  have r58: "fadd 6304000 (7030861463551999 / 4294967296) = 7941000"
    by (simp add: float_eval)
  have r59: "fadd 7941000 (7398081167359999 / 4294967296) = 9663500"
    by (simp add: float_eval)
  have r60: "fadd 9663500 (7030861463551999 / 4294967296) = 11300500"
    by (simp add: float_eval)
  have r61: "fadd 11300500 1295000 = 12595500"
    by (simp add: float_eval)
  have r62: "fadd 12595500 1124000 = 13719500"
    by (simp add: float_eval)
  have r63: "fadd 13719500 1295000 = 15014500"
    by (simp add: float_eval)
  have r64: "fadd 15014500 1466000 = 16480500"
    by (simp add: float_eval)
  have loc: "dict_get dr_location_factor jejugwon 1 = float_round 0.7"
    by (simp add: dict_get_def dr_location_factor_def sudogwon_def chungcheonggwon_def
        yeongnamgwon_def honamgwon_def gangwongwon_def jejugwon_def)
  have months: "monthly_revenues ?r = ?months"
    by (simp only: dr_monthly_in_code_order seasonal_factors_def list.map loc
        r1 r2 r3 r4 r5 r6 r7 r8 r9 r10 r11 r12 r13 r14 r15 r16 r17 r18 r19 r20 r21 r22 r23 r24 r25 r26 r27 r28 r29 r30 r31 r32 r33 r34 r35 r36 r37 r38 r39 r40 r41 r42 r43 r44 r45 r46 r47 r48 r49 r50 r51 r52 r53 r54 r55 r56 r57 r58 r59 r60 r61 r62 r63 r64)
  have "annual_revenue ?r = foldl fadd 0 (monthly_revenues ?r)"
    by (rule dr_annual_in_month_order)
  also have "\<dots> = foldl fadd 0 ?months"
    by (simp only: months)
  also have "\<dots> = 16480500"
    by (simp only: foldl.simps
        r1 r2 r3 r4 r5 r6 r7 r8 r9 r10 r11 r12 r13 r14 r15 r16 r17 r18 r19 r20 r21 r22 r23 r24 r25 r26 r27 r28 r29 r30 r31 r32 r33 r34 r35 r36 r37 r38 r39 r40 r41 r42 r43 r44 r45 r46 r47 r48 r49 r50 r51 r52 r53 r54 r55 r56 r57 r58 r59 r60 r61 r62 r63 r64)
  finally have annual: "annual_revenue ?r = 16480500" .
  have "sum_list (monthly_revenues ?r) = sum_list ?months"
    by (simp only: months)
  also have "\<dots> = 16480500 - 9 / 8589934592"
    by simp
  finally have exact: "sum_list (monthly_revenues ?r) = 16480500 - 9 / 8589934592" .
  have first: "hd (monthly_revenues ?r) = 6663641759743999 / 4294967296"
    by (simp only: months list.sel)
  from annual exact first show ?thesis
    by simp
qed

text \<open>
  C3, amended. \<open>calculate_dr_revenue\<close> is a function of its arguments alone (it reads
  no random source). Its annual revenue is the sum of its monthly revenues accumulated
  from 0 in month order, each float addition rounded. There are twelve monthly values,
  one per seasonal factor, each computed in the order of the code, every operation
  rounded: (capacity * 3000 + capacity * 2000 * location factor)
  + ((capacity * 30 * 2) * (utilization * seasonal factor)) * 150. This holds however
  the interpreter's \<^verbatim>\<open>sum\<close> rounds.
\<close>

theorem dr_annual_revenue_accumulates_months:
  "annual_revenue (calculate_dr_revenue s cap loc u)
     = sum_in_order (monthly_revenues (calculate_dr_revenue s cap loc u))
   \<and> length (monthly_revenues (calculate_dr_revenue s cap loc u)) = 12
   \<and> monthly_revenues (calculate_dr_revenue s cap loc u)
     = map (\<lambda>seasonal_factor.
              fadd (fadd (fmul cap 3000)
                         (fmul (fmul cap 2000) (dict_get dr_location_factor loc 1)))
                   (fmul (fmul (fmul (fmul cap 30) 2) (fmul u seasonal_factor)) 150))
         seasonal_factors"
proof -
  have "length (monthly_revenues (calculate_dr_revenue s cap loc u)) = 12"
    by (simp add: dr_monthly_in_code_order seasonal_factors_def)
  then show ?thesis
    by (simp add: dr_annual_in_month_order dr_monthly_in_code_order sum_in_order_def)
qed





section \<open>Properties of the qualitative scorer\<close>

text \<open>
  C6. The scale score is monotone in the capacity: a larger capacity never lowers the
  SMP points and never raises the DR points. The bands end at 3000, 8000 and 15000 kW
  and give (25, 4), (17, 13), (11, 19) and (6, 25).
\<close>

theorem scale_score_monotone:
  assumes "c1 \<le> c2"
  shows "snd (calculate_scale_score c1) \<le> snd (calculate_scale_score c2)
       \<and> fst (calculate_scale_score c2) \<le> fst (calculate_scale_score c1)
       \<and> calculate_scale_score c =
           (if c \<le> 3000 then (25, 4) else if c \<le> 8000 then (17, 13)
            else if c \<le> 15000 then (11, 19) else (6, 25))"
  using assms by (auto simp add: calculate_scale_score_def)

theorem scale_score_monotone_witness:
  "(8000::real) \<le> 8000.5
   \<and> snd (calculate_scale_score 8000) \<le> snd (calculate_scale_score 8000.5)
   \<and> fst (calculate_scale_score 8000.5) \<le> fst (calculate_scale_score 8000)
   \<and> calculate_scale_score 15000 = (11, 19)"
proof -
  have a: "(8000::real) \<le> 8000.5" by simp
  from scale_score_monotone [OF a, of 15000] a show ?thesis
    by simp
qed

text \<open>
  C8. The infrastructure score never fails: it always is one of the five pairs. When
  the spot count and the substation capacity match none of the five joint bands, it is
  the neutral pair (3, 3).
\<close>

theorem infrastructure_score_fallback:
  assumes "\<not> (spots > 200 \<and> mva > 1.0)"
    and "\<not> (120 < spots \<and> spots \<le> 200 \<and> 0.6 < mva \<and> mva \<le> 1.0)"
    and "\<not> (80 < spots \<and> spots \<le> 120 \<and> 0.4 < mva \<and> mva \<le> 0.6)"
    and "\<not> (40 < spots \<and> spots \<le> 80 \<and> 0.2 < mva \<and> mva \<le> 0.4)"
    and "\<not> (spots \<le> 40 \<and> mva \<le> 0.2)"
  shows "calculate_infrastructure_score spots mva = (3, 3)
       \<and> calculate_infrastructure_score s m \<in> {(1, 5), (2, 4), (3, 3), (4, 2), (5, 1)}"
proof
  from assms show "calculate_infrastructure_score spots mva = (3, 3)"
    unfolding calculate_infrastructure_score_def by (simp only: if_False)
  show "calculate_infrastructure_score s m \<in> {(1, 5), (2, 4), (3, 3), (4, 2), (5, 1)}"
    by (simp add: calculate_infrastructure_score_def)
qed

theorem infrastructure_score_fallback_witness:
  "calculate_infrastructure_score 300 0.5 = (3, 3)
   \<and> calculate_infrastructure_score 10 2 \<in> {(1, 5), (2, 4), (3, 3), (4, 2), (5, 1)}"
proof -
  have "\<not> ((300::int) > 200 \<and> (0.5::real) > 1.0)"
    and "\<not> (120 < (300::int) \<and> (300::int) \<le> 200 \<and> 0.6 < (0.5::real) \<and> (0.5::real) \<le> 1.0)"
    and "\<not> (80 < (300::int) \<and> (300::int) \<le> 120 \<and> 0.4 < (0.5::real) \<and> (0.5::real) \<le> 0.6)"
    and "\<not> (40 < (300::int) \<and> (300::int) \<le> 80 \<and> 0.2 < (0.5::real) \<and> (0.5::real) \<le> 0.4)"
    and "\<not> ((300::int) \<le> 40 \<and> (0.5::real) \<le> 0.2)"
    by simp_all
  then show ?thesis
    by (rule infrastructure_score_fallback)
qed

text \<open>
  C10. The parking-pattern score does not depend on \<^verbatim>\<open>regular_pattern_ratio\<close>: two
  calls with the same dispatch ratio return the same pair whatever the two regular
  ratios are. The two values of the pair always sum to 16. The comprehensive score,
  which passes the field on to it, therefore does not depend on that field either.
\<close>

theorem parking_score_ignores_regular_ratio:
  "calculate_parking_pattern_score r1 d = calculate_parking_pattern_score r2 d
   \<and> fst (calculate_parking_pattern_score r d) + snd (calculate_parking_pattern_score r d) = 16
   \<and> calculate_comprehensive_score (inp\<lparr>regular_pattern_ratio := r\<rparr>)
       = calculate_comprehensive_score inp"
  by (simp add: calculate_parking_pattern_score_def calculate_comprehensive_score_def)

lemma charger_ratio_returns:
  "\<exists>a b. calculate_charger_ratio_score t s v = Inr (a, b)"
  by (simp add: calculate_charger_ratio_score_def and_then_def py_div_def)

lemma battery_returns:
  "\<exists>s. calculate_battery_degradation_score a b c d = Inr (14, s)"
  by (simp add: calculate_battery_degradation_score_def and_then_def py_div_def Let_def)

text \<open>
  C9. For every four ratios the battery score returns, so the renormalisation raised
  no division error (it divides only by a positive sum), and its DR points are 14. The
  SMP points are one of 14, 10, 5 and 0.
\<close>

theorem battery_dr_score_is_14:
  "\<exists>smp_score. calculate_battery_degradation_score a b c d = Inr (14, smp_score)
     \<and> smp_score \<in> {14, 10, 5, 0}"
  by (simp add: calculate_battery_degradation_score_def and_then_def py_div_def Let_def)

text \<open>
  C7. For every input the comprehensive score returns a result. Its detailed scores
  are the pairs the nine sub-scorers give on the fields of the input, its two totals are
  the sums of those nine DR and nine SMP points, and its recommendation is DR exactly
  when the DR total is greater than the SMP total; in every other case, a tie included,
  it is SMP. The totals it reports are the roundings to one decimal of the totals it
  compares.
\<close>

theorem comprehensive_recommendation:
  "\<exists>r charger battery.
       calculate_charger_ratio_score (total_ports inp) (smart_ocpp_ports inp) (v2g_ports inp)
         = Inr charger
     \<and> calculate_battery_degradation_score (soh_under_70_ratio inp) (soh_70_85_ratio inp)
         (soh_85_95_ratio inp) (soh_over_95_ratio inp) = Inr battery
     \<and> calculate_comprehensive_score inp = Inr r
     \<and> detailed_scores r =
         [(''region'', category (of_int (fst (calculate_region_score (location inp))))
                         (of_int (snd (calculate_region_score (location inp)))) 20),
          (''scale'', category (of_int (fst (calculate_scale_score (capacity_kw inp))))
                        (of_int (snd (calculate_scale_score (capacity_kw inp)))) 25),
          (''risk'', category (of_int (fst (calculate_risk_score (risk_preference inp))))
                       (of_int (snd (calculate_risk_score (risk_preference inp)))) 12),
          (''parking'',
             category (fst (calculate_parking_pattern_score (regular_pattern_ratio inp)
                              (dr_dispatch_time_ratio inp)))
                      (snd (calculate_parking_pattern_score (regular_pattern_ratio inp)
                              (dr_dispatch_time_ratio inp))) 16),
          (''infrastructure'',
             category (of_int (fst (calculate_infrastructure_score (charging_spots inp)
                                      (power_capacity_mva inp))))
                      (of_int (snd (calculate_infrastructure_score (charging_spots inp)
                                      (power_capacity_mva inp)))) 5),
          (''charger'', category (of_int (fst charger)) (of_int (snd charger)) 5),
          (''brand'', category (of_int (fst (calculate_brand_score (brand_type inp))))
                        (of_int (snd (calculate_brand_score (brand_type inp)))) 3),
          (''battery'', category (of_int (fst battery)) (of_int (snd battery)) 14),
          (''budget'', category (of_int (fst (calculate_budget_score (budget_billion inp))))
                         (of_int (snd (calculate_budget_score (budget_billion inp)))) 10)]
     \<and> total_dr r =
         of_int (fst (calculate_region_score (location inp)))
         + of_int (fst (calculate_scale_score (capacity_kw inp)))
         + of_int (fst (calculate_risk_score (risk_preference inp)))
         + fst (calculate_parking_pattern_score (regular_pattern_ratio inp)
                  (dr_dispatch_time_ratio inp))
         + of_int (fst (calculate_infrastructure_score (charging_spots inp)
                          (power_capacity_mva inp)))
         + of_int (fst charger)
         + of_int (fst (calculate_brand_score (brand_type inp)))
         + of_int (fst battery)
         + of_int (fst (calculate_budget_score (budget_billion inp)))
     \<and> total_smp r =
         of_int (snd (calculate_region_score (location inp)))
         + of_int (snd (calculate_scale_score (capacity_kw inp)))
         + of_int (snd (calculate_risk_score (risk_preference inp)))
         + snd (calculate_parking_pattern_score (regular_pattern_ratio inp)
                  (dr_dispatch_time_ratio inp))
         + of_int (snd (calculate_infrastructure_score (charging_spots inp)
                          (power_capacity_mva inp)))
         + of_int (snd charger)
         + of_int (snd (calculate_brand_score (brand_type inp)))
         + of_int (snd battery)
         + of_int (snd (calculate_budget_score (budget_billion inp)))
     \<and> (recommendation r = ''DR'') = (total_dr r > total_smp r)
     \<and> recommendation r = (if total_dr r > total_smp r then ''DR'' else ''SMP'')
     \<and> total_scores r = \<lparr>dr = py_round (total_dr r) 1, smp = py_round (total_smp r) 1\<rparr>"
proof -
  obtain cd cs where c: "calculate_charger_ratio_score (total_ports inp)
      (smart_ocpp_ports inp) (v2g_ports inp) = Inr (cd, cs)"
    using charger_ratio_returns by blast
  obtain bs where b: "calculate_battery_degradation_score (soh_under_70_ratio inp)
      (soh_70_85_ratio inp) (soh_85_95_ratio inp) (soh_over_95_ratio inp) = Inr (14, bs)"
    using battery_returns by blast
  show ?thesis
    by (simp add: calculate_comprehensive_score_def c b and_then_def Let_def split_def
        total_dr_def total_smp_def dict_values_def category_def)
qed

lemmas scorer_eval =
  calculate_region_score_def calculate_scale_score_def calculate_risk_score_def
  calculate_parking_pattern_score_def calculate_infrastructure_score_def
  calculate_charger_ratio_score_def calculate_brand_score_def
  calculate_battery_degradation_score_def calculate_budget_score_def and_then_def py_div_def
  dict_get_def region_mapping_def dr_preferred_regions_def smp_preferred_regions_def
  risk_scores_def get_ratio_score_def sudogwon_def sejong_def gwangju_def daejeon_def
  daegu_def gangwongwon_def incheon_def busan_def ulsan_def gyeongsanggwon_def
  chungcheonggwon_def jeollagwon_def jejugwon_def yeongnamgwon_def honamgwon_def Let_def

lemma tie_input_scores:
  "calculate_region_score (location tie_input) = (15, 15)"
  "calculate_scale_score (capacity_kw tie_input) = (17, 13)"
  "calculate_risk_score (risk_preference tie_input) = (6, 6)"
  "calculate_parking_pattern_score (regular_pattern_ratio tie_input)
     (dr_dispatch_time_ratio tie_input) = (8, 8)"
  "calculate_infrastructure_score (charging_spots tie_input) (power_capacity_mva tie_input)
     = (3, 3)"
  "calculate_charger_ratio_score (total_ports tie_input) (smart_ocpp_ports tie_input)
     (v2g_ports tie_input) = Inr (1, 1)"
  "calculate_brand_score (brand_type tie_input) = (1, 3)"
  "calculate_battery_degradation_score (soh_under_70_ratio tie_input)
     (soh_70_85_ratio tie_input) (soh_85_95_ratio tie_input) (soh_over_95_ratio tie_input)
     = Inr (14, 14)"
  "calculate_budget_score (budget_billion tie_input) = (4, 6)"
  by (simp_all add: tie_input_def scorer_eval)

lemma dr_input_scores:
  "calculate_region_score (location dr_input) = (15, 15)"
  "calculate_scale_score (capacity_kw dr_input) = (17, 13)"
  "calculate_risk_score (risk_preference dr_input) = (12, 0)"
  "calculate_parking_pattern_score (regular_pattern_ratio dr_input)
     (dr_dispatch_time_ratio dr_input) = (8, 8)"
  "calculate_infrastructure_score (charging_spots dr_input) (power_capacity_mva dr_input)
     = (3, 3)"
  "calculate_charger_ratio_score (total_ports dr_input) (smart_ocpp_ports dr_input)
     (v2g_ports dr_input) = Inr (1, 1)"
  "calculate_brand_score (brand_type dr_input) = (1, 3)"
  "calculate_battery_degradation_score (soh_under_70_ratio dr_input)
     (soh_70_85_ratio dr_input) (soh_85_95_ratio dr_input) (soh_over_95_ratio dr_input)
     = Inr (14, 14)"
  "calculate_budget_score (budget_billion dr_input) = (4, 6)"
  by (simp_all add: dr_input_def tie_input_def scorer_eval)

theorem comprehensive_recommendation_witness:
  "(\<exists>r. calculate_comprehensive_score tie_input = Inr r
        \<and> total_dr r = 69 \<and> total_smp r = 69 \<and> recommendation r = ''SMP'')
   \<and> (\<exists>r. calculate_comprehensive_score dr_input = Inr r
        \<and> total_dr r = 75 \<and> total_smp r = 63 \<and> recommendation r = ''DR'')"
proof
  from comprehensive_recommendation [of tie_input]
  show "\<exists>r. calculate_comprehensive_score tie_input = Inr r
          \<and> total_dr r = 69 \<and> total_smp r = 69 \<and> recommendation r = ''SMP''"
    by (auto simp add: tie_input_scores)
next
  from comprehensive_recommendation [of dr_input]
  show "\<exists>r. calculate_comprehensive_score dr_input = Inr r
          \<and> total_dr r = 75 \<and> total_smp r = 63 \<and> recommendation r = ''DR''"
    by (auto simp add: dr_input_scores)
qed

section \<open>Properties of the recommendation combiner\<close>

text \<open>
  C5. The combiner weights each line as 0.6 times its ROI plus 0.4 times its total
  score, recommends DR exactly when the DR weight is greater (SMP otherwise), and
  labels the confidence by the absolute gap of the two weights: above 15 "very high",
  above 10 "high", above 5 "moderate", else "low". The four labels are different
  strings.
\<close>

theorem integrated_comparison_weights:
  "dr_weighted (metrics (create_integrated_comparison ra sr))
     = roi (roi_metrics (DR ra)) * 0.6 + dr (total_scores sr) * 0.4
   \<and> smp_weighted (metrics (create_integrated_comparison ra sr))
     = roi (roi_metrics (SMP ra)) * 0.6 + smp (total_scores sr) * 0.4
   \<and> (final_recommendation (create_integrated_comparison ra sr) = ''DR'')
     = (dr_weighted (metrics (create_integrated_comparison ra sr))
          > smp_weighted (metrics (create_integrated_comparison ra sr)))
   \<and> final_recommendation (create_integrated_comparison ra sr)
     = (if dr_weighted (metrics (create_integrated_comparison ra sr))
            > smp_weighted (metrics (create_integrated_comparison ra sr))
        then ''DR'' else ''SMP'')
   \<and> weighted_gap (metrics (create_integrated_comparison ra sr))
     = \<bar>dr_weighted (metrics (create_integrated_comparison ra sr))
        - smp_weighted (metrics (create_integrated_comparison ra sr))\<bar>
   \<and> confidence (create_integrated_comparison ra sr)
     = (if weighted_gap (metrics (create_integrated_comparison ra sr)) > 15 then maeu_nopeum
        else if weighted_gap (metrics (create_integrated_comparison ra sr)) > 10 then nopeum
        else if weighted_gap (metrics (create_integrated_comparison ra sr)) > 5 then botong
        else najeum)
   \<and> distinct [maeu_nopeum, nopeum, botong, najeum]"
  by (simp add: create_integrated_comparison_def Let_def maeu_nopeum_def nopeum_def
      botong_def najeum_def)

end
